theory Spec2Isabelle
  imports Complex_Main
begin

section \<open>JavaScript values\<close>

text \<open>
  A JavaScript number is an IEEE double.  Every finite double is a rational number, so a
  number is modelled by its value; the two infinities and NaN are separate constructors.
  Only comparison and truthiness are defined on \<open>jsnum\<close> here: both are exact on doubles.
  Arithmetic that rounds (\<open>+\<close>, \<open>/\<close>) is never defined on this type; the one place of the
  source that needs it takes the operations as parameters.
\<close>

datatype jsnum = Finite rat | PosInf | NegInf | NaN

text \<open>The relational operator \<open>a > b\<close> on two numbers: false whenever an operand is NaN.\<close>

fun js_gt :: "jsnum \<Rightarrow> jsnum \<Rightarrow> bool" where
  "js_gt NaN b = False"
| "js_gt a NaN = False"
| "js_gt (Finite x) (Finite y) = (y < x)"
| "js_gt (Finite x) PosInf = False"
| "js_gt (Finite x) NegInf = True"
| "js_gt PosInf PosInf = False"
| "js_gt PosInf b = True"
| "js_gt NegInf b = False"

text \<open>
  A value produced by \<open>JSON.parse\<close> (and so by \<open>response.json()\<close>): null, a boolean, a
  number, a string, an array or a plain object with its own properties.  A value that may be
  \<open>undefined\<close> is a \<open>json option\<close>, \<open>None\<close> standing for \<open>undefined\<close>.
\<close>

datatype json =
    JNull
  | JBool bool
  | JNum jsnum
  | JStr string
  | JArr "json list"
  | JObj "(string \<times> json) list"

text \<open>Truthiness, as \<open>||\<close>, \<open>!\<close> and \<open>if\<close> test it.\<close>

fun truthy :: "json \<Rightarrow> bool" where
  "truthy JNull = False"
| "truthy (JBool b) = b"
| "truthy (JNum (Finite x)) = (x \<noteq> 0)"
| "truthy (JNum NaN) = False"
| "truthy (JNum n) = True"
| "truthy (JStr s) = (s \<noteq> [])"
| "truthy (JArr xs) = True"
| "truthy (JObj kvs) = True"

definition truthy_opt :: "json option \<Rightarrow> bool" where
  "truthy_opt v = (case v of None \<Rightarrow> False | Some j \<Rightarrow> truthy j)"

text \<open>
  What a piece of code can throw, or a promise can reject with.  \<open>Error v\<close> is
  \<open>new Error(v)\<close>: its message is \<open>String(v)\<close>, which is \<open>v\<close> itself when \<open>v\<close> is a
  string.  \<open>TypeError\<close> and \<open>SyntaxError\<close> are raised by the engine (reading a property of
  null, calling something that is not a function, parsing a body that is not JSON);
  \<open>FetchError\<close> is the rejection of \<open>fetch\<close> itself (no response).  \<open>Thrown v\<close> is a
  parsed JSON value used as the rejection reason, as \<open>reject(res)\<close> does.
\<close>

datatype exn = Error json | TypeError | SyntaxError | FetchError | Thrown json

text \<open>
  Reading the property \<open>v.k\<close> of a parsed JSON value, for a key \<open>k\<close> that no built-in
  prototype defines (\<open>message\<close>, \<open>json\<close>, \<open>token\<close>, \<open>user\<close>, \<open>title\<close>, ...): null has
  no properties and throws; an object gives its own property or \<open>undefined\<close>; the other
  values give \<open>undefined\<close>.
\<close>

fun js_prop :: "json \<Rightarrow> string \<Rightarrow> exn + json option" where
  "js_prop JNull k = Inl TypeError"
| "js_prop (JObj kvs) k = Inr (map_of kvs k)"
| "js_prop v k = Inr None"

text \<open>The own property \<open>k\<close> of a value, \<open>undefined\<close> when it has none.\<close>

fun own_property :: "json \<Rightarrow> string \<Rightarrow> json option" where
  "own_property (JObj kvs) k = map_of kvs k"
| "own_property v k = None"

section \<open>OrdersDashboard: utils\<close>

record order =
  order_id :: string
  customerName :: string
  customerEmail :: string
  order_date :: string
  order_status :: string
  total :: jsnum

text \<open>
  \<open>new Set(iterable)\<close> adds the elements one by one; an element already present is not
  added again, and iteration (the spread \<open>[...set]\<close>) follows insertion order.  The
  elements here are strings, on which the Set's SameValueZero comparison is equality.
\<close>

definition Set_add :: "'a list \<Rightarrow> 'a \<Rightarrow> 'a list" where
  "Set_add s x = (if x \<in> set s then s else s @ [x])"

definition new_Set :: "'a list \<Rightarrow> 'a list" where
  "new_Set xs = foldl Set_add [] xs"

definition getCustomerEmails :: "order list \<Rightarrow> string list" where
  "getCustomerEmails orders = new_Set (map customerEmail orders)"

text \<open>The dashboard's "Unique Customers" line: \<open>getCustomerEmails(orders).length\<close>.\<close>

definition uniqueCustomers :: "order list \<Rightarrow> nat" where
  "uniqueCustomers orders = length (getCustomerEmails orders)"

section \<open>UserStatistics\<close>

record transaction =
  amount :: jsnum
  category :: string

text \<open>The user fetched from \<open>/api/users/:id\<close>; the field is \<open>None\<close> when it is missing.\<close>

record user =
  totalSpent :: "jsnum option"

subsection \<open>The frequency map\<close>

text \<open>
  \<open>frequencyMap\<close> is the object literal \<open>{}\<close>: an ordinary object whose prototype is
  \<open>Object.prototype\<close>.  Its own properties are kept in creation order.  A property holds
  either a count, or a string that is not a numeral (see \<open>increment\<close>).
\<close>

datatype propval = Count nat | Text

type_synonym jsobject = "(string \<times> propval) list"

text \<open>
  The property names of \<open>Object.prototype\<close>.  Each holds a function, but \<open>__proto__\<close>,
  an accessor that returns the prototype object; all of them are truthy and none is
  enumerable.
\<close>

definition object_prototype_keys :: "string list" where
  "object_prototype_keys =
     [''constructor'', ''__defineGetter__'', ''__defineSetter__'', ''hasOwnProperty'',
      ''__lookupGetter__'', ''__lookupSetter__'', ''isPrototypeOf'',
      ''propertyIsEnumerable'', ''toString'', ''valueOf'', ''__proto__'',
      ''toLocaleString'']"

text \<open>
  \<open>(frequencyMap[c] || 0) + 1\<close>.  An own count \<open>n\<close> gives \<open>n + 1\<close>.  A key that is not
  an own property is looked up in the prototype: when \<open>Object.prototype\<close> has it the value
  is a function (or the prototype object), which is truthy, and adding 1 to it concatenates
  its source text with \<open>"1"\<close>: a string that is not a numeral.  Adding 1 to such a string
  gives such a string again.  Otherwise the lookup is \<open>undefined\<close> and the result is 1.
\<close>

definition increment :: "jsobject \<Rightarrow> string \<Rightarrow> propval" where
  "increment m c =
     (case map_of m c of
        Some (Count n) \<Rightarrow> Count (n + 1)
      | Some Text \<Rightarrow> Text
      | None \<Rightarrow> if c \<in> set object_prototype_keys then Text else Count 1)"

text \<open>
  \<open>frequencyMap[c] = v\<close>.  An own property is overwritten in place; a new one is created
  after the existing ones.  The key \<open>__proto__\<close> reaches the setter of
  \<open>Object.prototype\<close>, which ignores a value that is neither an object nor null.
\<close>

fun put :: "jsobject \<Rightarrow> string \<Rightarrow> propval \<Rightarrow> jsobject" where
  "put [] c v = [(c, v)]"
| "put ((k, w) # m) c v = (if k = c then (k, v) # m else (k, w) # put m c v)"

definition assign :: "jsobject \<Rightarrow> string \<Rightarrow> propval \<Rightarrow> jsobject" where
  "assign m c v = (if c = ''__proto__'' then m else put m c v)"

definition count_category :: "jsobject \<Rightarrow> transaction \<Rightarrow> jsobject" where
  "count_category m t = assign m (category t) (increment m (category t))"

definition frequencyMap :: "transaction list \<Rightarrow> jsobject" where
  "frequencyMap transactions = foldl count_category [] transactions"

subsection \<open>The order of \<open>for ... in\<close>\<close>

text \<open>
  \<open>for (const category in frequencyMap)\<close> visits the own enumerable string keys: first
  the array indices (canonical decimal numerals below \<open>2^32 - 1\<close>) in ascending numeric
  order, then the other keys in creation order.  The inherited properties are not
  enumerable and are not visited.
\<close>

definition is_digit :: "char \<Rightarrow> bool" where
  "is_digit c = (48 \<le> (of_char c :: nat) \<and> (of_char c :: nat) \<le> 57)"

definition numeral_value :: "string \<Rightarrow> nat" where
  "numeral_value s = foldl (\<lambda>n c. 10 * n + (of_char c - 48)) 0 s"

definition is_array_index :: "string \<Rightarrow> bool" where
  "is_array_index s =
     (s \<noteq> [] \<and> list_all is_digit s \<and> (length s = 1 \<or> hd s \<noteq> CHR ''0'')
      \<and> numeral_value s < 4294967295)"

definition for_in_keys :: "jsobject \<Rightarrow> string list" where
  "for_in_keys m =
     sort_key numeral_value (filter is_array_index (map fst m))
     @ filter (\<lambda>k. \<not> is_array_index k) (map fst m)"

subsection \<open>The values the component displays\<close>

text \<open>
  One turn of the loop that looks for the top category.  \<open>frequencyMap[category] >
  maxCount\<close> compares a count numerically; a string that is not a numeral converts to NaN
  and the comparison is false.
\<close>

definition visit :: "jsobject \<Rightarrow> nat \<times> string \<Rightarrow> string \<Rightarrow> nat \<times> string" where
  "visit m acc c =
     (case map_of m c of
        Some (Count n) \<Rightarrow> if fst acc < n then (n, c) else acc
      | _ \<Rightarrow> acc)"

definition find_top :: "jsobject \<Rightarrow> nat \<times> string" where
  "find_top m = foldl (visit m) (0, ''None'') (for_in_keys m)"

text \<open>
  The count an object holds under a key (0 when it holds none), and the objects that hold
  counts only.
\<close>

definition count_in :: "jsobject \<Rightarrow> string \<Rightarrow> nat" where
  "count_in m c = (case map_of m c of Some (Count n) \<Rightarrow> n | _ \<Rightarrow> 0)"

definition counts_only :: "jsobject \<Rightarrow> bool" where
  "counts_only m = (\<forall>c. map_of m c \<noteq> Some Text)"

text \<open>\<open>user?.totalSpent > n\<close>: \<open>undefined\<close> converts to NaN, so the test is false.\<close>

definition spent_more_than :: "user option \<Rightarrow> jsnum \<Rightarrow> bool" where
  "spent_more_than u n =
     (case u of None \<Rightarrow> False
      | Some usr \<Rightarrow> (case totalSpent usr of None \<Rightarrow> False | Some x \<Rightarrow> js_gt x n))"

record statistics =
  averageSpend :: jsnum
  topCategory :: string
  userTier :: string

text \<open>
  The body of the component between the effect and the markup.  \<open>fadd\<close> and \<open>fdiv\<close>
  are the double-precision \<open>+\<close> and \<open>/\<close>, taken as parameters.
\<close>

definition UserStatistics ::
  "(jsnum \<Rightarrow> jsnum \<Rightarrow> jsnum) \<Rightarrow> (jsnum \<Rightarrow> jsnum \<Rightarrow> jsnum) \<Rightarrow>
   user option \<Rightarrow> transaction list \<Rightarrow> statistics" where
  "UserStatistics fadd fdiv usr transactions =
     (if 0 < length transactions then
        \<lparr> averageSpend =
            fdiv (foldl (\<lambda>sum t. fadd sum (amount t)) (Finite 0) transactions)
                 (Finite (of_nat (length transactions))),
          topCategory = snd (find_top (frequencyMap transactions)),
          userTier =
            (if spent_more_than usr (Finite 10000) then ''Platinum''
             else if spent_more_than usr (Finite 5000) then ''Gold''
             else ''Silver'') \<rparr>
      else
        \<lparr> averageSpend = Finite 0, topCategory = ''None'', userTier = ''Silver'' \<rparr>)"

subsection \<open>Mean and mode, as the specification words them\<close>

text \<open>
  The arithmetic mean of a list of rationals, and the mode of the categories: a category
  of the list that no other category of the list occurs more often than.
\<close>

definition mean :: "rat list \<Rightarrow> rat" where
  "mean xs = sum_list xs / of_nat (length xs)"

definition occurrences :: "transaction list \<Rightarrow> string \<Rightarrow> nat" where
  "occurrences ts c = count_list (map category ts) c"

definition is_mode :: "transaction list \<Rightarrow> string \<Rightarrow> bool" where
  "is_mode ts c =
     (c \<in> set (map category ts)
      \<and> list_all (\<lambda>d. occurrences ts d \<le> occurrences ts c) (map category ts))"

text \<open>
  Exact arithmetic on the finite numbers, in place of the rounding arithmetic of doubles:
  the idealisation under which the average can be compared with the mean, and a concrete
  pair for the parameters \<open>fadd\<close> and \<open>fdiv\<close> where one is needed.
\<close>

fun exact_add :: "jsnum \<Rightarrow> jsnum \<Rightarrow> jsnum" where
  "exact_add (Finite x) (Finite y) = Finite (x + y)"
| "exact_add a b = NaN"

fun exact_div :: "jsnum \<Rightarrow> jsnum \<Rightarrow> jsnum" where
  "exact_div (Finite x) (Finite y) = (if y = 0 then NaN else Finite (x / y))"
| "exact_div a b = NaN"

section \<open>The Task model (models/task.js)\<close>

text \<open>
  A Mongoose schema is a declaration: a tree of paths, each with its type and options.
  The shorthand \<open>title: String\<close> declares a path with no option set.  The options the
  source uses are \<open>enum\<close> and \<open>default\<close>; \<open>required\<close> is an option of every path and
  is false unless declared.
\<close>

datatype schema_type = String_type | Date_type

datatype default_value = Default_string string | Default_empty_array | Default_Date_now

record path_options =
  type_opt :: schema_type
  enum_opt :: "string list option"
  default_opt :: "default_value option"
  required_opt :: bool

datatype schema_node =
    Path path_options
  | Nested "(string \<times> schema_node) list"
  | Subdocuments "(string \<times> schema_node) list" "default_value option"

record schema =
  paths :: "(string \<times> schema_node) list"
  timestamps :: bool

definition shorthand :: "schema_type \<Rightarrow> schema_node" where
  "shorthand t =
     Path \<lparr> type_opt = t, enum_opt = None, default_opt = None, required_opt = False \<rparr>"

definition commentSchema :: "(string \<times> schema_node) list" where
  "commentSchema =
     [(''text'', shorthand String_type),
      (''createdAt'', Path \<lparr> type_opt = Date_type, enum_opt = None,
                            default_opt = Some Default_Date_now, required_opt = False \<rparr>),
      (''user_id'', shorthand String_type),
      (''user_name'', shorthand String_type),
      (''user_avatar'', shorthand String_type)]"

definition taskSchema :: schema where
  "taskSchema =
     \<lparr> paths =
         [(''title'', shorthand String_type),
          (''description'', shorthand String_type),
          (''status'', Path \<lparr> type_opt = String_type,
                              enum_opt = Some [''todo'', ''in_progress'', ''review'', ''done''],
                              default_opt = Some (Default_string ''todo''),
                              required_opt = False \<rparr>),
          (''createdBy'', Nested
             [(''user_id'', shorthand String_type),
              (''name'', shorthand String_type),
              (''email'', shorthand String_type),
              (''avatar'', shorthand String_type)]),
          (''assignedTo'', Nested
             [(''user_id'', shorthand String_type),
              (''name'', shorthand String_type),
              (''email'', shorthand String_type),
              (''avatar'', shorthand String_type)]),
          (''comments'', Subdocuments commentSchema (Some Default_empty_array)),
          (''priority'', Path \<lparr> type_opt = String_type,
                                enum_opt = Some [''low'', ''medium'', ''high''],
                                default_opt = Some (Default_string ''medium''),
                                required_opt = False \<rparr>),
          (''dueDate'', shorthand Date_type)],
       timestamps = True \<rparr>"

text \<open>
  Reading a schema: the paths that carry an enumeration, a default, or are required, each
  under its dotted name (\<open>createdBy.name\<close>, \<open>comments.createdAt\<close>).
\<close>

definition dotted :: "string \<Rightarrow> string \<Rightarrow> string" where
  "dotted p k = (if p = [] then k else p @ ''.'' @ k)"

fun enums_of :: "string \<Rightarrow> schema_node \<Rightarrow> (string \<times> string list) list" where
  "enums_of p (Path opts) = (case enum_opt opts of None \<Rightarrow> [] | Some vs \<Rightarrow> [(p, vs)])"
| "enums_of p (Nested fs) =
     concat (map (\<lambda>(k, n). enums_of (dotted p k) n) fs)"
| "enums_of p (Subdocuments fs d) =
     concat (map (\<lambda>(k, n). enums_of (dotted p k) n) fs)"

fun defaults_of :: "string \<Rightarrow> schema_node \<Rightarrow> (string \<times> default_value) list" where
  "defaults_of p (Path opts) = (case default_opt opts of None \<Rightarrow> [] | Some d \<Rightarrow> [(p, d)])"
| "defaults_of p (Nested fs) =
     concat (map (\<lambda>(k, n). defaults_of (dotted p k) n) fs)"
| "defaults_of p (Subdocuments fs d) =
     (case d of None \<Rightarrow> [] | Some v \<Rightarrow> [(p, v)])
     @ concat (map (\<lambda>(k, n). defaults_of (dotted p k) n) fs)"

fun required_of :: "string \<Rightarrow> schema_node \<Rightarrow> string list" where
  "required_of p (Path opts) = (if required_opt opts then [p] else [])"
| "required_of p (Nested fs) =
     concat (map (\<lambda>(k, n). required_of (dotted p k) n) fs)"
| "required_of p (Subdocuments fs d) =
     concat (map (\<lambda>(k, n). required_of (dotted p k) n) fs)"

definition schema_enums :: "schema \<Rightarrow> (string \<times> string list) list" where
  "schema_enums s = enums_of [] (Nested (paths s))"

definition schema_defaults :: "schema \<Rightarrow> (string \<times> default_value) list" where
  "schema_defaults s = defaults_of [] (Nested (paths s))"

definition schema_required :: "schema \<Rightarrow> string list" where
  "schema_required s = required_of [] (Nested (paths s))"

section \<open>The tasks router (controllers/taskController.js)\<close>

text \<open>
  Mongoose and the database are outside the repository: the model's operations are
  parameters.  Each gives what awaiting the query gives: \<open>Inr\<close> the value it resolves to
  (\<open>JNull\<close> when no document matches) or \<open>Inl\<close> the error it rejects with.  A document is
  the JSON value \<open>res.json\<close> sends for it.  \<open>new_Task\<close> is the constructor; what
  \<open>save\<close> resolves to is not used by the router, only whether it rejects.
\<close>

record task_update =
  upd_title :: "json option"
  upd_description :: "json option"
  upd_status :: "json option"
  upd_priority :: "json option"
  upd_dueDate :: "json option"

record created_by =
  cb_user_id :: "json option"
  cb_name :: "json option"
  cb_email :: "json option"
  cb_avatar :: "json option"

record new_task =
  nt_title :: "json option"
  nt_description :: "json option"
  nt_status :: "json option"
  nt_priority :: "json option"
  nt_dueDate :: "json option"
  nt_createdBy :: created_by

record task_model =
  findById :: "string \<Rightarrow> exn + json"
  find :: "json option \<Rightarrow> exn + json"
  findByIdAndUpdate :: "string \<Rightarrow> task_update \<Rightarrow> exn + json"
  findByIdAndDelete :: "string \<Rightarrow> exn + json"
  new_Task :: "new_task \<Rightarrow> json"
  save :: "json \<Rightarrow> exn + json"

record user_model =
  user_findById :: "json option \<Rightarrow> exn + json"

text \<open>
  The request: \<open>req.params.id\<close> and \<open>req.body\<close>.  The body is \<open>None\<close> when no
  middleware has parsed one (\<open>req.body\<close> is then \<open>undefined\<close>).
\<close>

record request =
  params_id :: string
  req_body :: "json option"

record response =
  status_code :: nat
  resp_body :: json

text \<open>\<open>res.status(code).json(body)\<close>\<close>

definition send :: "nat \<Rightarrow> json \<Rightarrow> response" where
  "send code b = \<lparr> status_code = code, resp_body = b \<rparr>"

text \<open>
  One name of a destructuring pattern \<open>const { k, ... } = req.body\<close>: destructuring
  \<open>undefined\<close> or \<open>null\<close> throws a TypeError.
\<close>

definition destructure :: "json option \<Rightarrow> string \<Rightarrow> exn + json option" where
  "destructure b k = (case b of None \<Rightarrow> Inl TypeError | Some v \<Rightarrow> js_prop v k)"

text \<open>Sequencing inside a \<open>try\<close> block: the first throw ends the block.\<close>

definition and_then :: "exn + 'a \<Rightarrow> ('a \<Rightarrow> exn + 'b) \<Rightarrow> exn + 'b" where
  "and_then r f = (case r of Inl e \<Rightarrow> Inl e | Inr v \<Rightarrow> f v)"

text \<open>\<open>try { ... } catch (error) { res.status(500).json({ ok: false, error: msg }) }\<close>\<close>

definition catch_500 :: "exn + response \<Rightarrow> string \<Rightarrow> response" where
  "catch_500 r msg =
     (case r of
        Inl error \<Rightarrow> send 500 (JObj [(''ok'', JBool False), (''error'', JStr msg)])
      | Inr sent \<Rightarrow> sent)"

text \<open>\<open>router.get("/:id")\<close>\<close>

definition get_task :: "task_model \<Rightarrow> request \<Rightarrow> response" where
  "get_task Task req =
     catch_500
       (and_then (findById Task (params_id req)) (\<lambda>task.
          Inr (send 200 (JObj [(''ok'', JBool True), (''data'', task)]))))
       ''Failed to get task''"

text \<open>\<open>router.post("/")\<close>\<close>

definition create_task :: "task_model \<Rightarrow> user_model \<Rightarrow> request \<Rightarrow> response" where
  "create_task Task User req =
     catch_500
       (and_then (destructure (req_body req) ''title'') (\<lambda>title.
        and_then (destructure (req_body req) ''description'') (\<lambda>description.
        and_then (destructure (req_body req) ''status'') (\<lambda>status.
        and_then (destructure (req_body req) ''user_id'') (\<lambda>user_id.
        and_then (destructure (req_body req) ''priority'') (\<lambda>priority.
        and_then (destructure (req_body req) ''dueDate'') (\<lambda>dueDate.
        and_then (user_findById User user_id) (\<lambda>usr.
          if \<not> truthy usr then
            Inr (send 404 (JObj [(''ok'', JBool False), (''error'', JStr ''User not found'')]))
          else
            and_then (js_prop usr ''_id'') (\<lambda>uid.
            and_then (js_prop usr ''name'') (\<lambda>uname.
            and_then (js_prop usr ''email'') (\<lambda>uemail.
            and_then (js_prop usr ''avatar'') (\<lambda>uavatar.
              let task =
                    new_Task Task
                      \<lparr> nt_title = title, nt_description = description,
                        nt_status = status, nt_priority = priority, nt_dueDate = dueDate,
                        nt_createdBy =
                          \<lparr> cb_user_id = uid, cb_name = uname, cb_email = uemail,
                            cb_avatar = uavatar \<rparr> \<rparr>
              in and_then (save Task task) (\<lambda>saved.
                   Inr (send 201 (JObj [(''ok'', JBool True), (''data'', task)])))))))))))))))
       ''Failed to create task''"

text \<open>\<open>router.post("/search")\<close>\<close>

definition search_tasks :: "task_model \<Rightarrow> request \<Rightarrow> response" where
  "search_tasks Task req =
     catch_500
       (and_then (find Task (req_body req)) (\<lambda>tasks.
          Inr (send 200 (JObj [(''ok'', JBool True), (''data'', tasks)]))))
       ''Failed to search tasks''"

text \<open>\<open>router.put("/:id")\<close>\<close>

definition update_task :: "task_model \<Rightarrow> request \<Rightarrow> response" where
  "update_task Task req =
     catch_500
       (and_then (destructure (req_body req) ''title'') (\<lambda>title.
        and_then (destructure (req_body req) ''description'') (\<lambda>description.
        and_then (destructure (req_body req) ''status'') (\<lambda>status.
        and_then (destructure (req_body req) ''priority'') (\<lambda>priority.
        and_then (destructure (req_body req) ''dueDate'') (\<lambda>dueDate.
        and_then
          (findByIdAndUpdate Task (params_id req)
             \<lparr> upd_title = title, upd_description = description, upd_status = status,
               upd_priority = priority, upd_dueDate = dueDate \<rparr>)
          (\<lambda>task.
             if \<not> truthy task then
               Inr (send 404 (JObj [(''ok'', JBool False), (''error'', JStr ''Task not found'')]))
             else
               Inr (send 200 (JObj [(''ok'', JBool True), (''data'', task)])))))))))
       ''Failed to update task''"

text \<open>\<open>router.delete("/:id")\<close>\<close>

definition delete_task :: "task_model \<Rightarrow> request \<Rightarrow> response" where
  "delete_task Task req =
     catch_500
       (and_then (findByIdAndDelete Task (params_id req)) (\<lambda>task.
          if \<not> truthy task then
            Inr (send 404 (JObj [(''ok'', JBool False), (''error'', JStr ''Task not found'')]))
          else
            Inr (send 200 (JObj [(''ok'', JBool True), (''data'', task)]))))
       ''Failed to delete task''"

datatype route = GET_id | POST_root | POST_search | PUT_id | DELETE_id

definition router :: "task_model \<Rightarrow> user_model \<Rightarrow> route \<Rightarrow> request \<Rightarrow> response" where
  "router Task User r req =
     (case r of
        GET_id \<Rightarrow> get_task Task req
      | POST_root \<Rightarrow> create_task Task User req
      | POST_search \<Rightarrow> search_tasks Task req
      | PUT_id \<Rightarrow> update_task Task req
      | DELETE_id \<Rightarrow> delete_task Task req)"

text \<open>
  The two shapes of the envelope \<open>{ ok: boolean, data | error }\<close>: exactly the fields
  \<open>ok\<close> and \<open>data\<close> with \<open>ok\<close> true, or exactly the fields \<open>ok\<close> and \<open>error\<close> with
  \<open>ok\<close> false and \<open>error\<close> a string.
\<close>

definition success_envelope :: "json \<Rightarrow> bool" where
  "success_envelope b =
     (case b of
        JObj kvs \<Rightarrow> map fst kvs = [''ok'', ''data''] \<and> map_of kvs ''ok'' = Some (JBool True)
      | _ \<Rightarrow> False)"

definition failure_envelope :: "json \<Rightarrow> bool" where
  "failure_envelope b =
     (case b of
        JObj kvs \<Rightarrow>
          map fst kvs = [''ok'', ''error''] \<and> map_of kvs ''ok'' = Some (JBool False)
          \<and> (case map_of kvs ''error'' of Some (JStr s) \<Rightarrow> True | _ \<Rightarrow> False)
      | _ \<Rightarrow> False)"


text \<open>A response is enveloped when a status below 400 carries the success shape and any
  other status the failure shape.\<close>

definition enveloped :: "response \<Rightarrow> bool" where
  "enveloped r =
     ((status_code r < 400 \<and> success_envelope (resp_body r))
      \<or> (400 \<le> status_code r \<and> failure_envelope (resp_body r)))"


section \<open>fetch\<close>

text \<open>
  A request as \<open>fetch(url, options)\<close> sends it.  The body is absent, a text passed as it
  is, or \<open>JSON.stringify\<close> of a value (kept as the value).
\<close>

datatype payload = No_body | Text_body string | Json_body json

record fetch_request =
  url :: string
  http_method :: string
  mode :: "string option"
  credentials :: "string option"
  headers :: "(string \<times> string) list"
  payload :: payload

text \<open>
  The \<open>Response\<close> a fetch resolves to: its status, and what parsing its body as JSON
  gives (\<open>None\<close> when the body is not JSON: it is empty, or a text, or HTML).
  \<open>response.ok\<close> is true for the statuses 200 to 299.
\<close>

record http_response =
  status :: nat
  json_body :: "json option"

definition response_ok :: "http_response \<Rightarrow> bool" where
  "response_ok response = (200 \<le> status response \<and> status response \<le> 299)"

text \<open>\<open>await response.json()\<close>\<close>

definition response_json :: "http_response \<Rightarrow> exn + json" where
  "response_json response =
     (case json_body response of None \<Rightarrow> Inl SyntaxError | Some j \<Rightarrow> Inr j)"

text \<open>
  The network and the server are outside the program: a server is a parameter, giving for
  the requests sent so far and the next request either a response or the error the fetch
  rejects with.  \<open>fetch\<close> records the request it sends, so the number of requests an
  operation makes can be read off the state.
\<close>

type_synonym server = "fetch_request list \<Rightarrow> fetch_request \<Rightarrow> exn + http_response"

definition fetch ::
  "server \<Rightarrow> fetch_request \<Rightarrow> fetch_request list \<Rightarrow>
   (exn + http_response) \<times> fetch_request list" where
  "fetch srv rq net = (srv net rq, net @ [rq])"

text \<open>A server that gives the same response to every request, for concrete instances.\<close>

definition always :: "http_response \<Rightarrow> server" where
  "always response net rq = Inr response"

text \<open>\<open>JSON.stringify(body)\<close> as a request body: \<open>undefined\<close> gives no body.\<close>

definition stringified :: "json option \<Rightarrow> payload" where
  "stringified b = (case b of None \<Rightarrow> No_body | Some j \<Rightarrow> Json_body j)"

text \<open>\<open>a || b\<close>, for a possibly undefined \<open>a\<close>\<close>

definition or_else :: "json option \<Rightarrow> json \<Rightarrow> json" where
  "or_else a b = (case a of None \<Rightarrow> b | Some v \<Rightarrow> if truthy v then v else b)"

section \<open>apiClient (services/apiClient.js)\<close>

datatype log_entry = Console_error string exn

text \<open>
  What one call of the client leaves behind: the value it returns (\<open>Inr\<close>) or the error
  it throws (\<open>Inl\<close>), the lines written to the console, and the requests sent.
\<close>

record api_call =
  outcome :: "exn + json"
  console :: "log_entry list"
  requests :: "fetch_request list"

definition baseUrl :: string where
  "baseUrl = ''/api''"

text \<open>\<open>catch (error) { console.error(label, error); throw error; }\<close>\<close>

definition log_and_rethrow ::
  "string \<Rightarrow> exn + json \<Rightarrow> fetch_request list \<Rightarrow> api_call" where
  "log_and_rethrow label attempt net =
     (case attempt of
        Inl error \<Rightarrow>
          \<lparr> outcome = Inl error, console = [Console_error label error], requests = net \<rparr>
      | Inr v \<Rightarrow> \<lparr> outcome = Inr v, console = [], requests = net \<rparr>)"

text \<open>
  \<open>throw new Error(data.message || "API request failed")\<close>, for the parsed body
  \<open>data\<close> of a response that is not ok.  Reading \<open>data.message\<close> throws a
  TypeError instead when the body is null.
\<close>

definition request_failed :: "json \<Rightarrow> exn + json" where
  "request_failed data =
     and_then (js_prop data ''message'') (\<lambda>message.
       Inl (Error (or_else message (JStr ''API request failed''))))"

definition apiClient_get :: "server \<Rightarrow> string \<Rightarrow> fetch_request list \<Rightarrow> api_call" where
  "apiClient_get srv endpoint net =
     (let (fetched, net') =
            fetch srv
              \<lparr> url = baseUrl @ endpoint, http_method = ''GET'', mode = None,
                credentials = None, headers = [], payload = No_body \<rparr> net
      in log_and_rethrow ''API GET error:''
           (and_then fetched (\<lambda>response.
              if \<not> response_ok response then
                and_then (response_json response) (\<lambda>data. request_failed data)
              else response_json response))
           net')"

definition apiClient_post ::
  "server \<Rightarrow> string \<Rightarrow> json option \<Rightarrow> fetch_request list \<Rightarrow> api_call" where
  "apiClient_post srv endpoint body net =
     (let (fetched, net') =
            fetch srv
              \<lparr> url = baseUrl @ endpoint, http_method = ''POST'', mode = None,
                credentials = None,
                headers = [(''Content-Type'', ''application/json'')],
                payload = stringified body \<rparr> net
      in log_and_rethrow ''API POST error:''
           (and_then fetched (\<lambda>response.
            and_then (response_json response) (\<lambda>data.
              if \<not> response_ok response then request_failed data else Inr data)))
           net')"

definition apiClient_put ::
  "server \<Rightarrow> string \<Rightarrow> json option \<Rightarrow> fetch_request list \<Rightarrow> api_call" where
  "apiClient_put srv endpoint body net =
     (let (fetched, net') =
            fetch srv
              \<lparr> url = baseUrl @ endpoint, http_method = ''PUT'', mode = None,
                credentials = None,
                headers = [(''Content-Type'', ''application/json'')],
                payload = stringified body \<rparr> net
      in log_and_rethrow ''API PUT error:''
           (and_then fetched (\<lambda>response.
            and_then (response_json response) (\<lambda>data.
              if \<not> response_ok response then request_failed data else Inr data)))
           net')"

text \<open>The three methods under one name, for statements about all of them.\<close>

datatype verb = GET | POST | PUT

definition apiClient ::
  "verb \<Rightarrow> server \<Rightarrow> string \<Rightarrow> json option \<Rightarrow> fetch_request list \<Rightarrow> api_call" where
  "apiClient v srv endpoint body net =
     (case v of
        GET \<Rightarrow> apiClient_get srv endpoint net
      | POST \<Rightarrow> apiClient_post srv endpoint body net
      | PUT \<Rightarrow> apiClient_put srv endpoint body net)"

text \<open>The label each method passes to \<open>console.error\<close>.\<close>

definition error_label :: "verb \<Rightarrow> string" where
  "error_label v =
     (case v of
        GET \<Rightarrow> ''API GET error:''
      | POST \<Rightarrow> ''API POST error:''
      | PUT \<Rightarrow> ''API PUT error:'')"

section \<open>The api class (services/api.js)\<close>

record api =
  token :: string

definition api_constructor :: api where
  "api_constructor = \<lparr> token = [] \<rparr>"

definition api_getToken :: "api \<Rightarrow> string" where
  "api_getToken this = token this"

definition api_setToken :: "api \<Rightarrow> string \<Rightarrow> api" where
  "api_setToken this t = this\<lparr> token := t \<rparr>"

definition api_removeToken :: "api \<Rightarrow> api" where
  "api_removeToken this = this\<lparr> token := [] \<rparr>"

text \<open>\<open>typeof body === "string" ? body : JSON.stringify(body)\<close>\<close>

definition body_of :: "json option \<Rightarrow> payload" where
  "body_of b = (case b of Some (JStr s) \<Rightarrow> Text_body s | _ \<Rightarrow> stringified b)"

definition api_request :: "string \<Rightarrow> api \<Rightarrow> string \<Rightarrow> string \<Rightarrow> payload \<Rightarrow> fetch_request" where
  "api_request apiURL this m path p =
     \<lparr> url = apiURL @ path, http_method = m, mode = Some ''cors'',
       credentials = Some ''include'',
       headers = [(''Content-Type'', ''application/json''),
                  (''Authorization'', ''JWT '' @ token this)],
       payload = p \<rparr>"

text \<open>
  Each method returns a promise; the model gives what awaiting it gives, \<open>Inr\<close> the value
  it resolves with or \<open>Inl\<close> the reason it rejects with.  \<open>apiURL\<close> comes from the
  configuration and is a parameter.
\<close>

definition api_get ::
  "string \<Rightarrow> api \<Rightarrow> server \<Rightarrow> string \<Rightarrow> fetch_request list \<Rightarrow>
   (exn + json) \<times> fetch_request list" where
  "api_get apiURL this srv path net =
     (let (fetched, net') = fetch srv (api_request apiURL this ''GET'' path No_body) net
      in (and_then fetched (\<lambda>response.
          and_then (response_json response) (\<lambda>res. Inr res)), net'))"

definition api_put ::
  "string \<Rightarrow> api \<Rightarrow> server \<Rightarrow> string \<Rightarrow> json option \<Rightarrow> fetch_request list \<Rightarrow>
   (exn + json) \<times> fetch_request list" where
  "api_put apiURL this srv path body net =
     (let (fetched, net') = fetch srv (api_request apiURL this ''PUT'' path (body_of body)) net
      in (and_then fetched (\<lambda>response.
          and_then (response_json response) (\<lambda>res. Inr res)), net'))"

definition api_post ::
  "string \<Rightarrow> api \<Rightarrow> server \<Rightarrow> string \<Rightarrow> json option \<Rightarrow> fetch_request list \<Rightarrow>
   (exn + json) \<times> fetch_request list" where
  "api_post apiURL this srv path body net =
     (let (fetched, net') = fetch srv (api_request apiURL this ''POST'' path (body_of body)) net
      in (and_then fetched (\<lambda>response.
          and_then (response_json response) (\<lambda>res.
            if status response \<noteq> 200 then Inl (Thrown res) else Inr res)), net'))"

section \<open>OrdersDashboard\<close>

text \<open>
  \<open>response.json()\<close> where \<open>response\<close> is a parsed JSON value: reading the property
  throws on null; otherwise the property is \<open>undefined\<close> or a JSON value, and calling
  either throws a TypeError, since no JSON value is a function.
\<close>

definition call_json :: "json \<Rightarrow> exn + json" where
  "call_json response =
     and_then (js_prop response ''json'') (\<lambda>f. Inl TypeError)"

text \<open>
  \<open>err.message\<close> for a caught value.  An \<open>Error\<close> made from \<open>v\<close> has the message
  \<open>String(v)\<close>; an error raised by the engine or by fetch has the text it was raised
  with; a thrown JSON value has its own property \<open>message\<close>, or none, and reading it throws
  when the value is null.
\<close>

datatype message = String_of json | Engine_text exn | Own_property json | Undefined

definition message_of :: "exn \<Rightarrow> exn + message" where
  "message_of err =
     (case err of
        Error v \<Rightarrow> Inr (String_of v)
      | Thrown j \<Rightarrow>
          and_then (js_prop j ''message'') (\<lambda>m.
            Inr (case m of None \<Rightarrow> Undefined | Some v \<Rightarrow> Own_property v))
      | _ \<Rightarrow> Inr (Engine_text err))"

text \<open>
  \<open>alert(text)\<close>: a literal text, or \<open>`Error: ${err.message}`\<close>, kept as the message.
\<close>

datatype alert = Alert string | Alert_error message

text \<open>
  The statements of the three \<open>try\<close> blocks after the request: \<open>const data = await
  response.json(); if (!response.ok) throw new Error(data.message || fallback)\<close>.
\<close>

definition read_reply :: "json \<Rightarrow> string \<Rightarrow> exn + json" where
  "read_reply response fallback =
     and_then (call_json response) (\<lambda>data.
     and_then (js_prop response ''ok'') (\<lambda>ok.
       if \<not> truthy_opt ok then
         and_then (js_prop data ''message'') (\<lambda>m. Inl (Error (or_else m (JStr fallback))))
       else Inr data))"

text \<open>
  What running one of the asynchronous functions leaves behind: the alerts shown, the
  reason its promise rejects with (\<open>None\<close> when it fulfils), and the requests sent.
\<close>

record effects =
  alerts :: "alert list"
  rejection :: "exn option"
  network :: "fetch_request list"

text \<open>\<open>catch (err) { alert(`Error: ${err.message}`); }\<close>\<close>

definition alert_error :: "exn \<Rightarrow> fetch_request list \<Rightarrow> effects" where
  "alert_error err net =
     (case message_of err of
        Inl e \<Rightarrow> \<lparr> alerts = [], rejection = Some e, network = net \<rparr>
      | Inr m \<Rightarrow> \<lparr> alerts = [Alert_error m], rejection = None, network = net \<rparr>)"

definition sendReminderEmail ::
  "string \<Rightarrow> api \<Rightarrow> server \<Rightarrow> string \<Rightarrow> fetch_request list \<Rightarrow> effects" where
  "sendReminderEmail apiURL API srv orderId net =
     (let (posted, net') =
            api_post apiURL API srv (''/orders/'' @ orderId @ ''/send-reminder'') None net
      in case and_then posted (\<lambda>response. read_reply response ''Failed to send reminder'') of
           Inr data \<Rightarrow>
             \<lparr> alerts = [Alert ''Reminder email sent successfully''], rejection = None,
               network = net' \<rparr>
         | Inl err \<Rightarrow> alert_error err net')"

record filters =
  filter_status :: string
  filter_sort :: string

definition filters_json :: "filters \<Rightarrow> json" where
  "filters_json f = JObj [(''status'', JStr (filter_status f)), (''sort'', JStr (filter_sort f))]"

text \<open>The component's state.  \<open>error\<close> is \<open>None\<close> while it is null.\<close>

record dashboard =
  orders :: "order list"
  loading :: bool
  error :: "message option"
  filters :: filters

definition initial_dashboard :: dashboard where
  "initial_dashboard =
     \<lparr> orders = [], loading = True, error = None,
       filters = \<lparr> filter_status = ''all'', filter_sort = ''date'' \<rparr> \<rparr>"

text \<open>
  \<open>fetchOrders\<close>.  \<open>as_orders\<close> reads the parsed body as the list of orders that
  \<open>setOrders(data)\<close> stores; it is a parameter.  The result is the state after the
  function has run, with the reason its promise rejects with, if any.
\<close>

definition fetchOrders ::
  "(json \<Rightarrow> order list) \<Rightarrow> string \<Rightarrow> api \<Rightarrow> server \<Rightarrow> dashboard \<Rightarrow> fetch_request list \<Rightarrow>
   dashboard \<times> exn option \<times> fetch_request list" where
  "fetchOrders as_orders apiURL API srv st net =
     (let st1 = st\<lparr> loading := True \<rparr>;
          (posted, net') =
            api_post apiURL API srv ''/orders/search'' (Some (filters_json (filters st))) net
      in case and_then posted (\<lambda>response. read_reply response ''Failed to fetch orders'') of
           Inr data \<Rightarrow> (st1\<lparr> orders := as_orders data, loading := False \<rparr>, None, net')
         | Inl err \<Rightarrow>
             (case message_of err of
                Inl e \<Rightarrow> (st1\<lparr> loading := False \<rparr>, Some e, net')
              | Inr m \<Rightarrow> (st1\<lparr> error := Some m, loading := False \<rparr>, None, net')))"

text \<open>\<open>markAsShipped\<close>: the state and the effects after the function has run.\<close>

definition markAsShipped ::
  "string \<Rightarrow> api \<Rightarrow> server \<Rightarrow> string \<Rightarrow> dashboard \<Rightarrow> fetch_request list \<Rightarrow>
   dashboard \<times> effects" where
  "markAsShipped apiURL API srv orderId st net =
     (let (updated, net') =
            api_put apiURL API srv (''/orders/'' @ orderId)
              (Some (JObj [(''status'', JStr ''shipped'')])) net
      in case and_then updated (\<lambda>response. read_reply response ''Failed to update order'') of
           Inr data \<Rightarrow>
             (st\<lparr> orders :=
                    map (\<lambda>ord. if order_id ord = orderId
                                then ord\<lparr> order_status := ''shipped'' \<rparr> else ord)
                        (orders st) \<rparr>,
              \<lparr> alerts = [Alert ''Order marked as shipped''], rejection = None,
                network = net' \<rparr>)
         | Inl err \<Rightarrow> (st, alert_error err net'))"

text \<open>A reading of the body that finds no order in it, for concrete instances.\<close>

definition no_orders :: "json \<Rightarrow> order list" where
  "no_orders data = []"

section \<open>State outside the components\<close>

text \<open>
  What lives outside any component: the browser's \<open>localStorage\<close>, the module-level
  instance \<open>const API = new api()\<close> (the field \<open>API_object\<close>), and whatever else
  \<open>utils/auth\<close> keeps (the field \<open>auth_state\<close>, of an unknown type).  That module is
  not part of the sources: its functions \<open>setToken\<close> and \<open>removeToken\<close> are
  parameters, and they may write any part of this state, \<open>localStorage\<close> included.
  \<open>JSON.stringify\<close> of a JSON value is a parameter too; of \<open>undefined\<close> it is
  \<open>undefined\<close>, which \<open>setItem\<close> stores as the text \<open>undefined\<close>.
\<close>

record 'a world =
  localStorage :: "string \<rightharpoonup> string"
  API_object :: api
  auth_state :: 'a

definition item :: "(json \<Rightarrow> string) \<Rightarrow> json option \<Rightarrow> string" where
  "item stringify v = (case v of None \<Rightarrow> ''undefined'' | Some j \<Rightarrow> stringify j)"

subsection \<open>authService (services/authService.js)\<close>

datatype service_result =
    Login_success json "json option"
  | Register_success json
  | Logout_success
  | Failure message

record 'a service_run =
  returned :: "exn + service_result"
  world_after :: "'a world"
  console_after :: "log_entry list"
  requests_after :: "fetch_request list"

text \<open>\<open>catch (error) { return { success: false, error: error.message }; }\<close>\<close>

definition failure :: "exn \<Rightarrow> 'a world \<Rightarrow> api_call \<Rightarrow> 'a service_run" where
  "failure err w call =
     \<lparr> returned = and_then (message_of err) (\<lambda>m. Inr (Failure m)),
       world_after = w, console_after = console call, requests_after = requests call \<rparr>"

definition login ::
  "(json \<Rightarrow> string) \<Rightarrow> (json option \<Rightarrow> 'a world \<Rightarrow> 'a world) \<Rightarrow> server \<Rightarrow> string \<Rightarrow> string \<Rightarrow>
   'a world \<Rightarrow> fetch_request list \<Rightarrow> 'a service_run" where
  "login stringify setToken srv email password w net =
     (let call = apiClient_post srv ''/auth/login''
                   (Some (JObj [(''email'', JStr email), (''password'', JStr password)])) net
      in case outcome call of
           Inl err \<Rightarrow> failure err w call
         | Inr data \<Rightarrow>
             (case js_prop data ''token'' of
                Inl err \<Rightarrow> failure err w call
              | Inr tok \<Rightarrow>
                  let w1 = setToken tok w in
                  (case js_prop data ''user'' of
                     Inl err \<Rightarrow> failure err w1 call
                   | Inr usr \<Rightarrow>
                       let w2 = w1\<lparr> localStorage :=
                                       (localStorage w1)(''user'' \<mapsto> item stringify usr) \<rparr> in
                       (case usr of
                          None \<Rightarrow> failure TypeError w2 call
                        | Some u \<Rightarrow>
                            (case js_prop u ''isAdmin'' of
                               Inl err \<Rightarrow> failure err w2 call
                             | Inr isAdmin \<Rightarrow>
                                 \<lparr> returned = Inr (Login_success u isAdmin),
                                   world_after = w2, console_after = console call,
                                   requests_after = requests call \<rparr>)))))"

definition register ::
  "server \<Rightarrow> json option \<Rightarrow> 'a world \<Rightarrow> fetch_request list \<Rightarrow> 'a service_run" where
  "register srv userData w net =
     (let call = apiClient_post srv ''/auth/register'' userData net
      in case outcome call of
           Inl err \<Rightarrow> failure err w call
         | Inr res \<Rightarrow>
             \<lparr> returned = Inr (Register_success res), world_after = w,
               console_after = console call, requests_after = requests call \<rparr>)"

definition logout :: "('a world \<Rightarrow> 'a world) \<Rightarrow> 'a world \<Rightarrow> service_result \<times> 'a world" where
  "logout removeToken w =
     (let w1 = removeToken w
      in (Logout_success, w1\<lparr> localStorage := (localStorage w1)(''user'' := None) \<rparr>))"

text \<open>The request \<open>authService.login\<close> sends.\<close>

definition login_request :: "string \<Rightarrow> string \<Rightarrow> fetch_request" where
  "login_request email password =
     \<lparr> url = ''/api/auth/login'', http_method = ''POST'', mode = None, credentials = None,
       headers = [(''Content-Type'', ''application/json'')],
       payload = Json_body (JObj [(''email'', JStr email), (''password'', JStr password)]) \<rparr>"

subsection \<open>useSearchStateStorage\<close>

text \<open>The effect of the hook, and the cleanup it returns.\<close>

definition search_effect ::
  "(json \<Rightarrow> string) \<Rightarrow> bool \<Rightarrow> string \<Rightarrow> json \<Rightarrow> 'a world \<Rightarrow> 'a world" where
  "search_effect stringify saveSearchState query fltrs w =
     (if saveSearchState then
        w\<lparr> localStorage :=
             (localStorage w)(''lastSearchQuery'' \<mapsto> query,
                              ''lastSearchFilters'' \<mapsto> stringify fltrs) \<rparr>
      else w)"

definition search_cleanup :: "bool \<Rightarrow> 'a world \<Rightarrow> 'a world" where
  "search_cleanup saveSearchState w =
     (if saveSearchState then
        w\<lparr> localStorage :=
             (localStorage w)(''lastSearchQuery'' := None, ''lastSearchFilters'' := None) \<rparr>
      else w)"

subsection \<open>The operations that touch the world\<close>

datatype operation =
    Api_setToken string
  | Api_removeToken
  | Auth_login string string
  | Auth_register "json option"
  | Auth_logout
  | Search_effect bool string json
  | Search_cleanup bool

definition perform ::
  "(json \<Rightarrow> string) \<Rightarrow> (json option \<Rightarrow> 'a world \<Rightarrow> 'a world) \<Rightarrow> ('a world \<Rightarrow> 'a world) \<Rightarrow>
   server \<Rightarrow> fetch_request list \<Rightarrow> operation \<Rightarrow> 'a world \<Rightarrow> 'a world" where
  "perform stringify setToken removeToken srv net op w =
     (case op of
        Api_setToken t \<Rightarrow> w\<lparr> API_object := api_setToken (API_object w) t \<rparr>
      | Api_removeToken \<Rightarrow> w\<lparr> API_object := api_removeToken (API_object w) \<rparr>
      | Auth_login email password \<Rightarrow>
          world_after (login stringify setToken srv email password w net)
      | Auth_register userData \<Rightarrow> world_after (register srv userData w net)
      | Auth_logout \<Rightarrow> snd (logout removeToken w)
      | Search_effect saveSearchState query fltrs \<Rightarrow>
          search_effect stringify saveSearchState query fltrs w
      | Search_cleanup saveSearchState \<Rightarrow> search_cleanup saveSearchState w)"

text \<open>
  Concrete parameters for instances: a \<open>JSON.stringify\<close> that writes every value as the
  same text, a \<open>utils/auth\<close> that keeps the token it is given in a state of its own, and
  a world in which nothing has been stored yet.
\<close>

definition some_text :: "json \<Rightarrow> string" where
  "some_text j = ''<json>''"

definition keep_token :: "json option \<Rightarrow> (json option) world \<Rightarrow> (json option) world" where
  "keep_token t w = w\<lparr> auth_state := t \<rparr>"

definition drop_token :: "(json option) world \<Rightarrow> (json option) world" where
  "drop_token w = w\<lparr> auth_state := None \<rparr>"

definition fresh_world :: "(json option) world" where
  "fresh_world =
     \<lparr> localStorage = Map.empty, API_object = api_constructor, auth_state = None \<rparr>"

section \<open>Properties: OrdersDashboard utilities\<close>

lemma foldl_Set_add:
  "distinct acc \<Longrightarrow>
   distinct (foldl Set_add acc xs) \<and> set (foldl Set_add acc xs) = set acc \<union> set xs"
  by (induction xs arbitrary: acc) (auto simp: Set_add_def)

text \<open>
  Claim C9.  For every list of orders, \<open>getCustomerEmails\<close> returns a list without
  duplicates whose members are exactly the values of \<open>customerEmail\<close> over the orders, and
  the "Unique Customers" count is the number of distinct customer emails.
\<close>

theorem getCustomerEmails_distinct_emails:
  "distinct (getCustomerEmails os)
   \<and> set (getCustomerEmails os) = customerEmail ` set os
   \<and> uniqueCustomers os = card (customerEmail ` set os)"
proof -
  have d: "distinct (getCustomerEmails os)"
    and s: "set (getCustomerEmails os) = customerEmail ` set os"
    using foldl_Set_add [of "[]" "map customerEmail os"]
    by (simp_all add: getCustomerEmails_def new_Set_def)
  have "uniqueCustomers os = card (set (getCustomerEmails os))"
    using d by (simp add: uniqueCustomers_def distinct_card)
  with d s show ?thesis by simp
qed

section \<open>Properties: UserStatistics\<close>

text \<open>
  Claim C7.  With no transactions the tier is Silver whatever the user has spent.  With
  transactions and a user who has spent the finite amount \<open>x\<close>, the tier is Platinum
  exactly when \<open>x > 10000\<close>; failing that, Gold exactly when \<open>x > 5000\<close>; failing
  both, Silver.  The comparison \<open>user?.totalSpent > n\<close> is false when the user is null,
  when the field is missing and when it is NaN, so the tier is then Silver; an infinite
  amount compares as an infinity does.
\<close>

theorem userTier_by_totalSpent:
  "userTier (UserStatistics fadd fdiv usr ts) =
     (if ts = [] then ''Silver''
      else case usr of
             None \<Rightarrow> ''Silver''
           | Some u \<Rightarrow>
               (case totalSpent u of
                  None \<Rightarrow> ''Silver''
                | Some (Finite x) \<Rightarrow>
                    if 10000 < x then ''Platinum''
                    else if 5000 < x then ''Gold''
                    else ''Silver''
                | Some PosInf \<Rightarrow> ''Platinum''
                | Some NegInf \<Rightarrow> ''Silver''
                | Some NaN \<Rightarrow> ''Silver''))"
  by (simp add: UserStatistics_def spent_more_than_def split: option.splits jsnum.splits)

theorem userTier_by_totalSpent_witness:
  "userTier (UserStatistics exact_add exact_div
      (Some \<lparr> totalSpent = Some (Finite 99999) \<rparr>) []) = ''Silver''
   \<and> userTier (UserStatistics exact_add exact_div
        (Some \<lparr> totalSpent = Some (Finite 10001) \<rparr>)
        [\<lparr> amount = Finite 20, category = ''food'' \<rparr>]) = ''Platinum''
   \<and> userTier (UserStatistics exact_add exact_div
        (Some \<lparr> totalSpent = Some (Finite 10000) \<rparr>)
        [\<lparr> amount = Finite 20, category = ''food'' \<rparr>]) = ''Gold''
   \<and> userTier (UserStatistics exact_add exact_div
        (Some \<lparr> totalSpent = Some (Finite 5001) \<rparr>)
        [\<lparr> amount = Finite 20, category = ''food'' \<rparr>]) = ''Gold''
   \<and> userTier (UserStatistics exact_add exact_div
        (Some \<lparr> totalSpent = Some (Finite 5000) \<rparr>)
        [\<lparr> amount = Finite 20, category = ''food'' \<rparr>]) = ''Silver''
   \<and> userTier (UserStatistics exact_add exact_div None
        [\<lparr> amount = Finite 20, category = ''food'' \<rparr>]) = ''Silver''"
  using userTier_by_totalSpent
          [of exact_add exact_div "Some \<lparr> totalSpent = Some (Finite 99999) \<rparr>" "[]"]
        userTier_by_totalSpent
          [of exact_add exact_div "Some \<lparr> totalSpent = Some (Finite 10001) \<rparr>"
              "[\<lparr> amount = Finite 20, category = ''food'' \<rparr>]"]
        userTier_by_totalSpent
          [of exact_add exact_div "Some \<lparr> totalSpent = Some (Finite 10000) \<rparr>"
              "[\<lparr> amount = Finite 20, category = ''food'' \<rparr>]"]
        userTier_by_totalSpent
          [of exact_add exact_div "Some \<lparr> totalSpent = Some (Finite 5001) \<rparr>"
              "[\<lparr> amount = Finite 20, category = ''food'' \<rparr>]"]
        userTier_by_totalSpent
          [of exact_add exact_div "Some \<lparr> totalSpent = Some (Finite 5000) \<rparr>"
              "[\<lparr> amount = Finite 20, category = ''food'' \<rparr>]"]
        userTier_by_totalSpent
          [of exact_add exact_div None "[\<lparr> amount = Finite 20, category = ''food'' \<rparr>]"]
  by simp

lemma map_of_put: "map_of (put m c v) = (map_of m)(c \<mapsto> v)"
  by (induction m c v rule: put.induct) auto

lemma not_prototype_key_not_proto:
  "c \<notin> set object_prototype_keys \<Longrightarrow> c \<noteq> ''__proto__''"
  by (auto simp: object_prototype_keys_def)

lemma count_category_step:
  assumes "category t \<notin> set object_prototype_keys" and "counts_only m"
  shows "map_of (count_category m t)
           = (map_of m)(category t \<mapsto> Count (count_in m (category t) + 1))"
proof -
  have "increment m (category t) = Count (count_in m (category t) + 1)"
    using assms
    by (auto simp: increment_def count_in_def counts_only_def
        split: option.splits propval.splits)
  then show ?thesis
    using not_prototype_key_not_proto [OF assms(1)]
    by (simp add: count_category_def assign_def map_of_put)
qed

lemma foldl_count_category:
  assumes "\<forall>t\<in>set ts. category t \<notin> set object_prototype_keys" and "counts_only m"
  shows "counts_only (foldl count_category m ts)
     \<and> count_in (foldl count_category m ts) c = count_in m c + count_list (map category ts) c
     \<and> dom (map_of (foldl count_category m ts)) = dom (map_of m) \<union> category ` set ts"
  using assms
proof (induction ts arbitrary: m)
  case Nil
  then show ?case by simp
next
  case (Cons t ts)
  have step: "map_of (count_category m t)
           = (map_of m)(category t \<mapsto> Count (count_in m (category t) + 1))"
    using Cons.prems by (simp add: count_category_step)
  have c: "counts_only (count_category m t)"
    using Cons.prems(2) by (simp add: counts_only_def step)
  have n: "count_in (count_category m t) c
             = count_in m c + (if category t = c then 1 else 0)"
    by (simp add: count_in_def step)
  have d: "dom (map_of (count_category m t)) = insert (category t) (dom (map_of m))"
    by (simp add: step)
  show ?case
    using Cons.IH [OF _ c] Cons.prems(1) n d by auto
qed

lemma foldl_visit:
  "foldl (visit m) acc ks = (n, c) \<Longrightarrow>
     fst acc \<le> n \<and> (\<forall>k\<in>set ks. count_in m k \<le> n)
     \<and> ((n, c) = acc \<or> (c \<in> set ks \<and> map_of m c = Some (Count n)))"
proof (induction ks arbitrary: acc)
  case Nil
  then show ?case by auto
next
  case (Cons k ks)
  have v: "fst acc \<le> fst (visit m acc k) \<and> count_in m k \<le> fst (visit m acc k)
           \<and> (visit m acc k = acc
               \<or> visit m acc k = (count_in m k, k)
                 \<and> map_of m k = Some (Count (count_in m k)))"
    by (auto simp: visit_def count_in_def split: option.splits propval.splits)
  from Cons.IH [of "visit m acc k"] Cons.prems
  have ih: "fst (visit m acc k) \<le> n" "\<forall>k\<in>set ks. count_in m k \<le> n"
    "(n, c) = visit m acc k \<or> (c \<in> set ks \<and> map_of m c = Some (Count n))"
    by simp_all
  show ?case
    using v ih by auto
qed

lemma set_for_in_keys: "set (for_in_keys m) = fst ` set m"
  by (auto simp: for_in_keys_def)

text \<open>
  Where no category names a property of \<open>Object.prototype\<close>, the top category of a
  non-empty list is a mode of its categories, whatever order \<open>for ... in\<close> visits the
  keys in.
\<close>

lemma topCategory_is_mode:
  assumes "ts \<noteq> []" and "\<forall>t\<in>set ts. category t \<notin> set object_prototype_keys"
  shows "is_mode ts (topCategory (UserStatistics fadd fdiv usr ts))"
proof -
  let ?m = "frequencyMap ts"
  have co: "counts_only []" by (simp add: counts_only_def)
  have cnt: "\<And>c. count_in ?m c = occurrences ts c"
    and dm: "dom (map_of ?m) = category ` set ts"
    using foldl_count_category [OF assms(2) co]
    by (simp_all add: frequencyMap_def count_in_def occurrences_def)
  have keys: "set (for_in_keys ?m) = category ` set ts"
    using dm by (simp add: set_for_in_keys dom_map_of_conv_image_fst)
  obtain n c where nc: "find_top ?m = (n, c)" by (cases "find_top ?m")
  from foldl_visit [OF nc [unfolded find_top_def]]
  have le: "\<forall>k\<in>category ` set ts. occurrences ts k \<le> n"
    and alt: "(n, c) = (0, ''None'')
              \<or> (c \<in> category ` set ts \<and> map_of ?m c = Some (Count n))"
    by (simp_all add: keys cnt)
  obtain t where t: "t \<in> set ts" using assms(1) by (cases ts) auto
  have "category t \<in> set (map category ts)" using t by simp
  then have "count_list (map category ts) (category t) \<noteq> 0"
    by (simp only: count_list_0_iff not_not)
  then have "0 < occurrences ts (category t)"
    by (simp add: occurrences_def)
  with le t have "0 < n" by force
  with alt have c: "c \<in> category ` set ts" and mc: "map_of ?m c = Some (Count n)" by auto
  have "occurrences ts c = n" using cnt [of c] mc by (simp add: count_in_def)
  with le c have "is_mode ts c"
    by (auto simp: is_mode_def list_all_iff)
  then show ?thesis
    using assms(1) nc by (simp add: UserStatistics_def)
qed

lemma foldl_exact_add:
  "\<forall>t\<in>set ts. \<exists>x. amount t = Finite x \<Longrightarrow>
   foldl (\<lambda>sum t. exact_add sum (amount t)) (Finite a) ts
     = Finite (a + sum_list (map (\<lambda>t. case amount t of Finite x \<Rightarrow> x | _ \<Rightarrow> 0) ts))"
  by (induction ts arbitrary: a) (auto simp: add.assoc)

text \<open>
  With exact arithmetic in place of the arithmetic of doubles, the average of a non-empty
  list of finite amounts is their arithmetic mean.  The rounding of each double addition
  and of the division is outside this model.
\<close>

lemma averageSpend_exact:
  assumes "\<forall>t\<in>set ts. \<exists>x. amount t = Finite x" and "ts \<noteq> []"
  shows "averageSpend (UserStatistics exact_add exact_div usr ts)
           = Finite (mean (map (\<lambda>t. case amount t of Finite x \<Rightarrow> x | _ \<Rightarrow> 0) ts))"
  using assms foldl_exact_add [OF assms(1), of 0]
  by (simp add: UserStatistics_def mean_def)

text \<open>
  Claim C1, at a list of one transaction whose category is \<open>constructor\<close>.  The lookup
  \<open>frequencyMap["constructor"]\<close> finds the function inherited from \<open>Object.prototype\<close>,
  so the property becomes a string and never a count, and no key passes the comparison
  with \<open>maxCount\<close>: the component displays \<open>None\<close>, which is not a category of the list,
  while the mode of the list is \<open>constructor\<close>.
\<close>

theorem topCategory_constructor:
  "topCategory (UserStatistics fadd fdiv usr
      [\<lparr> amount = Finite 5, category = ''constructor'' \<rparr>]) = ''None''
   \<and> is_mode [\<lparr> amount = Finite 5, category = ''constructor'' \<rparr>] ''constructor''
   \<and> \<not> is_mode [\<lparr> amount = Finite 5, category = ''constructor'' \<rparr>] ''None''"
  by (simp add: UserStatistics_def frequencyMap_def count_category_def assign_def
      increment_def object_prototype_keys_def find_top_def for_in_keys_def
      is_array_index_def is_digit_def visit_def is_mode_def occurrences_def)

section \<open>Properties: the tasks router\<close>

lemma catch_500_simps:
  "catch_500 (Inl e) msg = send 500 (JObj [(''ok'', JBool False), (''error'', JStr msg)])"
  "catch_500 (Inr r) msg = r"
  by (simp_all add: catch_500_def)

lemma and_then_simps:
  "and_then (Inl e) f = Inl e"
  "and_then (Inr v) f = f v"
  by (simp_all add: and_then_def)

lemma and_then_cases:
  assumes "and_then r f = Inr x"
  obtains v where "r = Inr v" "f v = Inr x"
  using assms by (cases r) (simp_all add: and_then_simps)

lemma enveloped_send:
  "enveloped (send 200 (JObj [(''ok'', JBool True), (''data'', d)]))"
  "enveloped (send 201 (JObj [(''ok'', JBool True), (''data'', d)]))"
  "enveloped (send 404 (JObj [(''ok'', JBool False), (''error'', JStr m)]))"
  "enveloped (send 500 (JObj [(''ok'', JBool False), (''error'', JStr m)]))"
  by (simp_all add: enveloped_def send_def success_envelope_def failure_envelope_def)

lemma enveloped_catch:
  "(\<And>r. t = Inr r \<Longrightarrow> enveloped r) \<Longrightarrow> enveloped (catch_500 t msg)"
  by (cases t) (simp_all add: catch_500_simps enveloped_send)

lemma get_task_enveloped: "enveloped (get_task Task req)"
  unfolding get_task_def
  by (rule enveloped_catch) (auto elim!: and_then_cases simp: enveloped_send)

lemma search_tasks_enveloped: "enveloped (search_tasks Task req)"
  unfolding search_tasks_def
  by (rule enveloped_catch) (auto elim!: and_then_cases simp: enveloped_send)

lemma delete_task_enveloped: "enveloped (delete_task Task req)"
  unfolding delete_task_def
  by (rule enveloped_catch)
     (auto elim!: and_then_cases simp: enveloped_send split: if_splits)

lemma update_task_enveloped: "enveloped (update_task Task req)"
  unfolding update_task_def
  by (rule enveloped_catch)
     (auto elim!: and_then_cases simp: enveloped_send split: if_splits)

lemma create_task_enveloped: "enveloped (create_task Task User req)"
  unfolding create_task_def Let_def
  by (rule enveloped_catch)
     (auto elim!: and_then_cases simp: enveloped_send split: if_splits)

text \<open>
  Claim C2.  Whatever the route, the request and the behaviour of the database, the
  response of the tasks router is an envelope: below status 400 it has exactly the fields
  \<open>ok\<close>, true, and \<open>data\<close>; from status 400 on it has exactly the fields \<open>ok\<close>, false,
  and \<open>error\<close>, a string.
\<close>

theorem router_envelope:
  "(status_code (router Task User r req) < 400
      \<and> success_envelope (resp_body (router Task User r req)))
   \<or> (400 \<le> status_code (router Task User r req)
      \<and> failure_envelope (resp_body (router Task User r req)))"
  using get_task_enveloped [of Task req] search_tasks_enveloped [of Task req]
    delete_task_enveloped [of Task req] update_task_enveloped [of Task req]
    create_task_enveloped [of Task User req]
  by (cases r) (simp_all add: router_def enveloped_def)






section \<open>Properties: the Task schema\<close>

text \<open>
  Claim C5 as stated fails: the path \<open>status\<close> of the Task schema is constrained to an
  enumeration and has a default.
\<close>

theorem taskSchema_status_enum_default:
  "map_of (schema_enums taskSchema) ''status''
     = Some [''todo'', ''in_progress'', ''review'', ''done'']
   \<and> map_of (schema_defaults taskSchema) ''status'' = Some (Default_string ''todo'')"
  by (simp add: schema_enums_def schema_defaults_def taskSchema_def shorthand_def
      dotted_def commentSchema_def)

text \<open>
  Claim C5, amended.  The Task schema declares no required path.  Its constraints are
  these and no others: \<open>status\<close> is one of todo, in_progress, review, done and defaults to
  todo; \<open>priority\<close> is one of low, medium, high and defaults to medium; \<open>comments\<close>
  defaults to the empty array and the \<open>createdAt\<close> of a comment to \<open>Date.now\<close>.
\<close>

theorem taskSchema_constraints:
  "schema_required taskSchema = []
   \<and> schema_enums taskSchema
       = [(''status'', [''todo'', ''in_progress'', ''review'', ''done'']),
          (''priority'', [''low'', ''medium'', ''high''])]
   \<and> schema_defaults taskSchema
       = [(''status'', Default_string ''todo''),
          (''comments'', Default_empty_array),
          (''comments.createdAt'', Default_Date_now),
          (''priority'', Default_string ''medium'')]"
  by (simp add: schema_enums_def schema_defaults_def schema_required_def taskSchema_def
      shorthand_def dotted_def commentSchema_def)

section \<open>Properties: apiClient\<close>

lemma log_and_rethrow_simps:
  "outcome (log_and_rethrow l a net) = a"
  "requests (log_and_rethrow l a net) = net"
  "console (log_and_rethrow l a net)
     = (case a of Inl e \<Rightarrow> [Console_error l e] | Inr d \<Rightarrow> [])"
  by (simp_all add: log_and_rethrow_def split: sum.splits)

text \<open>
  Claim C4 as stated fails twice.  A response with status 204 and no body has
  \<open>response.ok\<close> true, yet \<open>post\<close> throws the SyntaxError of \<open>response.json()\<close>
  instead of returning.  A response with status 500 and the body \<open>{ "message": "" }\<close>
  has a message field, yet the Error thrown carries "API request failed".
\<close>

theorem apiClient_ok_without_json_throws:
  "response_ok \<lparr> status = 204, json_body = None \<rparr>
   \<and> outcome (apiClient POST (always \<lparr> status = 204, json_body = None \<rparr>)
        ''/user/profile'' None []) = Inl SyntaxError
   \<and> outcome (apiClient GET
        (always \<lparr> status = 500, json_body = Some (JObj [(''message'', JStr [])]) \<rparr>)
        ''/user/profile'' None []) = Inl (Error (JStr ''API request failed''))"
  by (simp add: response_ok_def apiClient_def apiClient_post_def apiClient_get_def
      fetch_def always_def log_and_rethrow_simps and_then_simps response_json_def
      request_failed_def or_else_def)

text \<open>
  Claim C4, amended.  Each of \<open>get\<close>, \<open>post\<close> and \<open>put\<close> sends exactly one request.
  When the fetch rejects, it throws that rejection.  When the body of the response does not
  parse as JSON, it throws the parse error, whether the response is ok or not.  When the
  body parses, it returns the parsed body if \<open>response.ok\<close> is true; otherwise it throws
  an Error made from the body's \<open>message\<close> if that is truthy and from "API request
  failed" if it is missing or falsy (a TypeError if the body is null).  Whatever it throws
  is written once to the console under the method's label and thrown unchanged; nothing is
  written when it returns.
\<close>

theorem apiClient_behaviour:
  "\<exists>rq. requests (apiClient v srv endpoint body net) = net @ [rq]
     \<and> outcome (apiClient v srv endpoint body net) =
         (case srv net rq of
            Inl e \<Rightarrow> Inl e
          | Inr response \<Rightarrow>
              (case json_body response of
                 None \<Rightarrow> Inl SyntaxError
               | Some data \<Rightarrow>
                   if response_ok response then Inr data
                   else (case js_prop data ''message'' of
                           Inl e \<Rightarrow> Inl e
                         | Inr m \<Rightarrow> Inl (Error (or_else m (JStr ''API request failed''))))))
     \<and> console (apiClient v srv endpoint body net) =
         (case outcome (apiClient v srv endpoint body net) of
            Inl e \<Rightarrow> [Console_error (error_label v) e]
          | Inr d \<Rightarrow> [])"
proof (cases v)
  case GET
  show ?thesis
    unfolding GET
    by (rule exI [of _ "\<lparr> url = baseUrl @ endpoint, http_method = ''GET'', mode = None,
                credentials = None, headers = [], payload = No_body \<rparr>"])
       (simp add: apiClient_def apiClient_get_def fetch_def log_and_rethrow_simps
          error_label_def and_then_def response_json_def request_failed_def
          split: sum.splits option.splits)
next
  case POST
  show ?thesis
    unfolding POST
    by (rule exI [of _ "\<lparr> url = baseUrl @ endpoint, http_method = ''POST'', mode = None,
                credentials = None, headers = [(''Content-Type'', ''application/json'')],
                payload = stringified body \<rparr>"])
       (simp add: apiClient_def apiClient_post_def fetch_def log_and_rethrow_simps
          error_label_def and_then_def response_json_def request_failed_def
          split: sum.splits option.splits)
next
  case PUT
  show ?thesis
    unfolding PUT
    by (rule exI [of _ "\<lparr> url = baseUrl @ endpoint, http_method = ''PUT'', mode = None,
                credentials = None, headers = [(''Content-Type'', ''application/json'')],
                payload = stringified body \<rparr>"])
       (simp add: apiClient_def apiClient_put_def fetch_def log_and_rethrow_simps
          error_label_def and_then_def response_json_def request_failed_def
          split: sum.splits option.splits)
qed

section \<open>Properties: OrdersDashboard\<close>

lemma call_json_throws: "call_json response = Inl TypeError"
  by (cases response) (simp_all add: call_json_def and_then_simps)

lemma read_reply_throws: "read_reply response fallback = Inl TypeError"
  by (simp add: read_reply_def call_json_throws and_then_simps)

lemma after_request_throws:
  "\<exists>e. and_then posted (\<lambda>response. read_reply response fallback) = Inl e"
  by (cases posted) (simp_all add: and_then_simps read_reply_throws)

lemma sendReminderEmail_no_success:
  "Alert ''Reminder email sent successfully''
     \<notin> set (alerts (sendReminderEmail apiURL inst srv orderId net))"
proof -
  obtain posted net' where
    p: "api_post apiURL inst srv (''/orders/'' @ orderId @ ''/send-reminder'') None net
          = (posted, net')"
    by (cases "api_post apiURL inst srv (''/orders/'' @ orderId @ ''/send-reminder'') None net")
  obtain e where
    e: "and_then posted (\<lambda>response. read_reply response ''Failed to send reminder'') = Inl e"
    using after_request_throws by blast
  show ?thesis
    unfolding sendReminderEmail_def p
    by (simp add: e alert_error_def split: sum.splits)
qed

lemma markAsShipped_no_update:
  "fst (markAsShipped apiURL inst srv orderId st net) = st
   \<and> Alert ''Order marked as shipped''
       \<notin> set (alerts (snd (markAsShipped apiURL inst srv orderId st net)))"
proof -
  obtain updated net' where
    p: "api_put apiURL inst srv (''/orders/'' @ orderId)
          (Some (JObj [(''status'', JStr ''shipped'')])) net = (updated, net')"
    by (cases "api_put apiURL inst srv (''/orders/'' @ orderId)
                 (Some (JObj [(''status'', JStr ''shipped'')])) net")
  obtain e where
    e: "and_then updated (\<lambda>response. read_reply response ''Failed to update order'') = Inl e"
    using after_request_throws by blast
  show ?thesis
    unfolding markAsShipped_def p
    by (simp add: e alert_error_def split: sum.splits)
qed

lemma fetchOrders_catch:
  assumes "api_post apiURL inst srv ''/orders/search'' (Some (filters_json (filters st))) net
             = (posted, net')"
  shows "fetchOrders as_orders apiURL inst srv st net =
     (case message_of (case posted of Inl e \<Rightarrow> e | Inr response \<Rightarrow> TypeError) of
        Inl e \<Rightarrow> (st\<lparr> loading := False \<rparr>, Some e, net')
      | Inr m \<Rightarrow> (st\<lparr> error := Some m, loading := False \<rparr>, None, net'))"
  unfolding fetchOrders_def assms
  by (cases posted)
     (simp_all add: Let_def and_then_simps read_reply_throws split: sum.splits)

lemma message_of_throws: "(\<exists>e. message_of err = Inl e) \<longleftrightarrow> err = Thrown JNull"
proof (cases err)
  case (Thrown j)
  then show ?thesis by (cases j) (simp_all add: message_of_def and_then_simps)
qed (simp_all add: message_of_def)

lemma message_of_null: "message_of (Thrown JNull) = Inl TypeError"
  by (simp add: message_of_def and_then_simps)

text \<open>
  Claim C3 as stated fails for \<open>fetchOrders\<close> when the server answers with a status
  other than 200 and the body \<open>null\<close>: \<open>API.post\<close> rejects with null, \<open>err.message\<close>
  throws inside the catch branch, and the error state stays null while the promise of
  \<open>fetchOrders\<close> rejects.
\<close>

theorem fetchOrders_null_rejection_sets_no_error:
  "error (fst (fetchOrders no_orders ''/api'' api_constructor
        (always \<lparr> status = 500, json_body = Some JNull \<rparr>) initial_dashboard [])) = None
   \<and> fst (snd (fetchOrders no_orders ''/api'' api_constructor
        (always \<lparr> status = 500, json_body = Some JNull \<rparr>) initial_dashboard []))
       = Some TypeError"
  by (simp add: fetchOrders_def api_post_def fetch_def always_def and_then_simps
      response_json_def message_of_def initial_dashboard_def)

text \<open>
  Claim C3, amended.  \<open>API.post\<close> and \<open>API.put\<close> resolve with the parsed body, on which
  \<open>.json()\<close> throws a TypeError, so the statements after the request always throw and
  each of the three functions ends in its catch branch, for every order id and every
  server.  \<open>sendReminderEmail\<close> never shows its success alert.  \<open>markAsShipped\<close> leaves
  the state as it was and never shows its success alert.  \<open>fetchOrders\<close> never sets the
  orders; it sets the error state to the message of what it caught (which is
  \<open>undefined\<close> for a rejected body without a message) and fulfils, unless \<open>API.post\<close>
  rejected with null: then the catch branch throws, the error state stays as it was and
  the promise rejects with a TypeError.
\<close>

theorem dashboard_requests_end_in_catch:
  "read_reply response fallback = Inl TypeError
   \<and> Alert ''Reminder email sent successfully''
        \<notin> set (alerts (sendReminderEmail apiURL inst srv orderId net))
   \<and> fst (markAsShipped apiURL inst srv orderId st net) = st
   \<and> Alert ''Order marked as shipped''
        \<notin> set (alerts (snd (markAsShipped apiURL inst srv orderId st net)))
   \<and> orders (fst (fetchOrders as_orders apiURL inst srv st net)) = orders st
   \<and> (fst (api_post apiURL inst srv ''/orders/search'' (Some (filters_json (filters st))) net)
          \<noteq> Inl (Thrown JNull) \<longrightarrow>
        (\<exists>m. message_of
                (case fst (api_post apiURL inst srv ''/orders/search''
                             (Some (filters_json (filters st))) net) of
                   Inl e \<Rightarrow> e | Inr parsed \<Rightarrow> TypeError) = Inr m
              \<and> error (fst (fetchOrders as_orders apiURL inst srv st net)) = Some m)
        \<and> fst (snd (fetchOrders as_orders apiURL inst srv st net)) = None)
   \<and> (fst (api_post apiURL inst srv ''/orders/search'' (Some (filters_json (filters st))) net)
          = Inl (Thrown JNull) \<longrightarrow>
        error (fst (fetchOrders as_orders apiURL inst srv st net)) = error st
        \<and> fst (snd (fetchOrders as_orders apiURL inst srv st net)) = Some TypeError)"
proof -
  obtain posted net' where
    p: "api_post apiURL inst srv ''/orders/search'' (Some (filters_json (filters st))) net
          = (posted, net')"
    by (cases "api_post apiURL inst srv ''/orders/search''
                 (Some (filters_json (filters st))) net")
  let ?err = "case posted of Inl e \<Rightarrow> e | Inr parsed \<Rightarrow> TypeError"
  have f: "fetchOrders as_orders apiURL inst srv st net =
     (case message_of ?err of
        Inl e \<Rightarrow> (st\<lparr> loading := False \<rparr>, Some e, net')
      | Inr m \<Rightarrow> (st\<lparr> error := Some m, loading := False \<rparr>, None, net'))"
    by (rule fetchOrders_catch [OF p])
  have o: "orders (fst (fetchOrders as_orders apiURL inst srv st net)) = orders st"
    by (simp add: f split: sum.splits)
  have e: "(\<exists>m. message_of ?err = Inr m
              \<and> error (fst (fetchOrders as_orders apiURL inst srv st net)) = Some m)
        \<and> fst (snd (fetchOrders as_orders apiURL inst srv st net)) = None"
    if "posted \<noteq> Inl (Thrown JNull)"
  proof -
    have "?err \<noteq> Thrown JNull" using that by (cases posted) simp_all
    then obtain m where "message_of ?err = Inr m"
      using message_of_throws [of ?err] by (cases "message_of ?err") auto
    then show ?thesis by (simp add: f)
  qed
  have n: "error (fst (fetchOrders as_orders apiURL inst srv st net)) = error st
        \<and> fst (snd (fetchOrders as_orders apiURL inst srv st net)) = Some TypeError"
    if "posted = Inl (Thrown JNull)"
    using that by (simp add: f message_of_null)
  show ?thesis
    using o e n p read_reply_throws [of response fallback]
      sendReminderEmail_no_success [of apiURL inst srv orderId net]
      markAsShipped_no_update [of apiURL inst srv orderId st net]
    by simp
qed

theorem dashboard_requests_end_in_catch_witness:
  "fst (api_post ''/api'' api_constructor
          (always \<lparr> status = 200, json_body = Some (JArr []) \<rparr>)
          ''/orders/search'' (Some (filters_json (filters initial_dashboard))) [])
     \<noteq> Inl (Thrown JNull)
   \<and> error (fst (fetchOrders no_orders ''/api'' api_constructor
        (always \<lparr> status = 200, json_body = Some (JArr []) \<rparr>) initial_dashboard []))
       = Some (Engine_text TypeError)
   \<and> orders (fst (fetchOrders no_orders ''/api'' api_constructor
        (always \<lparr> status = 200, json_body = Some (JArr []) \<rparr>) initial_dashboard [])) = []
   \<and> fst (api_post ''/api'' api_constructor
          (always \<lparr> status = 500, json_body = Some JNull \<rparr>)
          ''/orders/search'' (Some (filters_json (filters initial_dashboard))) [])
     = Inl (Thrown JNull)
   \<and> fst (snd (fetchOrders no_orders ''/api'' api_constructor
        (always \<lparr> status = 500, json_body = Some JNull \<rparr>) initial_dashboard []))
       = Some TypeError"
proof -
  have h: "fst (api_post ''/api'' api_constructor
                  (always \<lparr> status = 200, json_body = Some (JArr []) \<rparr>)
                  ''/orders/search'' (Some (filters_json (filters initial_dashboard))) [])
             = Inr (JArr [])"
    by (simp add: api_post_def fetch_def always_def and_then_simps response_json_def)
  have g: "fst (api_post ''/api'' api_constructor
                  (always \<lparr> status = 500, json_body = Some JNull \<rparr>)
                  ''/orders/search'' (Some (filters_json (filters initial_dashboard))) [])
             = Inl (Thrown JNull)"
    by (simp add: api_post_def fetch_def always_def and_then_simps response_json_def)
  show ?thesis
    using dashboard_requests_end_in_catch [of JNull "[]" "''/api''" api_constructor
        "always \<lparr> status = 200, json_body = Some (JArr []) \<rparr>" "[]" "[]"
        initial_dashboard no_orders]
      dashboard_requests_end_in_catch [of JNull "[]" "''/api''" api_constructor
        "always \<lparr> status = 500, json_body = Some JNull \<rparr>" "[]" "[]"
        initial_dashboard no_orders]
    unfolding h g
    by (simp add: initial_dashboard_def message_of_def)
qed

section \<open>Properties: state outside the components\<close>

lemma failure_world: "world_after (failure err w call) = w"
  by (simp add: failure_def)

lemma js_prop_own_property: "b \<noteq> JNull \<Longrightarrow> js_prop b k = Inr (own_property b k)"
  by (cases b) simp_all

lemma login_request_sent:
  "apiClient_post srv ''/auth/login''
     (Some (JObj [(''email'', JStr email), (''password'', JStr password)])) net
   = log_and_rethrow ''API POST error:''
       (and_then (srv net (login_request email password)) (\<lambda>response.
        and_then (response_json response) (\<lambda>data.
          if \<not> response_ok response then request_failed data else Inr data)))
       (net @ [login_request email password])"
  by (simp add: apiClient_post_def fetch_def login_request_def baseUrl_def stringified_def)

lemma request_failed_throws: "\<exists>e. request_failed data = Inl e"
  by (cases "js_prop data ''message''") (simp_all add: request_failed_def and_then_simps)

lemma login_outcome:
  "outcome (apiClient_post srv ''/auth/login''
      (Some (JObj [(''email'', JStr email), (''password'', JStr password)])) net) =
     (case srv net (login_request email password) of
        Inl e \<Rightarrow> Inl e
      | Inr response \<Rightarrow>
          (case json_body response of
             None \<Rightarrow> Inl SyntaxError
           | Some data \<Rightarrow> if response_ok response then Inr data else request_failed data))"
  by (simp add: login_request_sent log_and_rethrow_simps and_then_def response_json_def
      split: sum.splits option.splits)

lemma login_world_of_outcome:
  "world_after (login stringify setToken srv email password w net) =
     (case outcome (apiClient_post srv ''/auth/login''
               (Some (JObj [(''email'', JStr email), (''password'', JStr password)])) net) of
        Inl e \<Rightarrow> w
      | Inr data \<Rightarrow>
          if data = JNull then w
          else (setToken (own_property data ''token'') w)
                 \<lparr> localStorage :=
                     (localStorage (setToken (own_property data ''token'') w))
                       (''user'' \<mapsto> item stringify (own_property data ''user'')) \<rparr>)"
proof (cases "outcome (apiClient_post srv ''/auth/login''
               (Some (JObj [(''email'', JStr email), (''password'', JStr password)])) net)")
  case (Inl e)
  then show ?thesis
    unfolding login_def by (simp add: Let_def failure_world)
next
  case (Inr data)
  show ?thesis
  proof (cases "data = JNull")
    case True
    with Inr show ?thesis
      unfolding login_def by (simp add: Let_def failure_world)
  next
    case False
    then have t: "js_prop data ''token'' = Inr (own_property data ''token'')"
      and u: "js_prop data ''user'' = Inr (own_property data ''user'')"
      by (simp_all add: js_prop_own_property)
    show ?thesis
      unfolding login_def
      by (simp add: Let_def Inr False t u failure_world split: option.splits sum.splits)
  qed
qed

lemma login_world:
  "world_after (login stringify setToken srv email password w net) =
     (case srv net (login_request email password) of
        Inl e \<Rightarrow> w
      | Inr response \<Rightarrow>
          (case json_body response of
             None \<Rightarrow> w
           | Some data \<Rightarrow>
               if response_ok response \<and> data \<noteq> JNull then
                 (setToken (own_property data ''token'') w)
                   \<lparr> localStorage :=
                       (localStorage (setToken (own_property data ''token'') w))
                         (''user'' \<mapsto> item stringify (own_property data ''user'')) \<rparr>
               else w))"
proof (cases "srv net (login_request email password)")
  case (Inl e)
  then show ?thesis
    by (simp add: login_world_of_outcome login_outcome)
next
  case (Inr response)
  show ?thesis
  proof (cases "json_body response")
    case None
    with Inr show ?thesis
      by (simp add: login_world_of_outcome login_outcome)
  next
    case (Some data)
    show ?thesis
    proof (cases "response_ok response")
      case True
      with Inr Some show ?thesis
        by (simp add: login_world_of_outcome login_outcome)
    next
      case False
      obtain e where "request_failed data = Inl e"
        using request_failed_throws by blast
      with Inr Some False show ?thesis
        by (simp add: login_world_of_outcome login_outcome)
    qed
  qed
qed

lemma register_world: "world_after (register srv userData w net) = w"
  by (simp add: register_def Let_def failure_world split: sum.splits)

text \<open>
  Claim C6 as stated fails: \<open>setToken\<close> of the api class changes the token of the
  module-level object \<open>API\<close>, and a successful \<open>authService.login\<close> writes the key
  \<open>user\<close> of the browser's \<open>localStorage\<close>.
\<close>

theorem operations_write_shared_state:
  "token (API_object (perform some_text keep_token drop_token
       (always \<lparr> status = 200, json_body = Some JNull \<rparr>) [] (Api_setToken ''secret'')
       fresh_world)) = ''secret''
   \<and> token (API_object fresh_world) = []
   \<and> localStorage (perform some_text keep_token drop_token
       (always \<lparr> status = 200,
                 json_body = Some (JObj [(''token'', JStr ''t''), (''user'', JObj [])]) \<rparr>)
       [] (Auth_login ''ada@example.org'' ''pw'') fresh_world) ''user'' = Some ''<json>''
   \<and> localStorage fresh_world ''user'' = None"
  by (simp add: perform_def api_setToken_def fresh_world_def api_constructor_def login_def
      apiClient_post_def fetch_def always_def log_and_rethrow_def and_then_def
      response_json_def response_ok_def item_def some_text_def keep_token_def)

text \<open>
  Claim C6, amended.  Outside component-local state, the operations of the api class, of
  \<open>authService\<close> and of \<open>useSearchStateStorage\<close> write exactly this.
  \<open>api.setToken(t)\<close> sets the token of the module-level object \<open>API\<close> to \<open>t\<close>, and
  \<open>api.removeToken\<close> sets it to the empty string.  \<open>authService.login\<close> writes only
  when the response is ok and its body parses to a value that is not null: it then calls
  \<open>setToken\<close> of \<open>utils/auth\<close> with the body's \<open>token\<close> and, after it, sets the key
  \<open>user\<close> of \<open>localStorage\<close> to \<open>JSON.stringify\<close> of the body's \<open>user\<close>.
  \<open>authService.register\<close> writes nothing.  \<open>authService.logout\<close> calls
  \<open>removeToken\<close> of \<open>utils/auth\<close> and then removes the key \<open>user\<close>.  With
  \<open>saveSearchState\<close> true, the effect of \<open>useSearchStateStorage\<close> sets the key
  \<open>lastSearchQuery\<close> to the query and \<open>lastSearchFilters\<close> to the stringified
  filters, and its cleanup removes both keys; with \<open>saveSearchState\<close> false neither
  writes anything.  What \<open>setToken\<close> and \<open>removeToken\<close> of \<open>utils/auth\<close> write
  themselves is not known.
\<close>

theorem shared_state_writes:
  "perform stringify setToken removeToken srv net (Api_setToken t) w
     = w\<lparr> API_object := \<lparr> token = t \<rparr> \<rparr>
   \<and> perform stringify setToken removeToken srv net Api_removeToken w
     = w\<lparr> API_object := \<lparr> token = [] \<rparr> \<rparr>
   \<and> perform stringify setToken removeToken srv net (Auth_login email password) w
     = (case srv net (login_request email password) of
          Inl e \<Rightarrow> w
        | Inr response \<Rightarrow>
            (case json_body response of
               None \<Rightarrow> w
             | Some data \<Rightarrow>
                 if response_ok response \<and> data \<noteq> JNull then
                   (setToken (own_property data ''token'') w)
                     \<lparr> localStorage :=
                         (localStorage (setToken (own_property data ''token'') w))
                           (''user'' \<mapsto> item stringify (own_property data ''user'')) \<rparr>
                 else w))
   \<and> perform stringify setToken removeToken srv net (Auth_register userData) w = w
   \<and> perform stringify setToken removeToken srv net Auth_logout w
     = (removeToken w)\<lparr> localStorage := (localStorage (removeToken w))(''user'' := None) \<rparr>
   \<and> perform stringify setToken removeToken srv net (Search_effect True query fltrs) w
     = w\<lparr> localStorage :=
            (localStorage w)(''lastSearchQuery'' \<mapsto> query,
                             ''lastSearchFilters'' \<mapsto> stringify fltrs) \<rparr>
   \<and> perform stringify setToken removeToken srv net (Search_effect False query fltrs) w = w
   \<and> perform stringify setToken removeToken srv net (Search_cleanup True) w
     = w\<lparr> localStorage :=
            (localStorage w)(''lastSearchQuery'' := None, ''lastSearchFilters'' := None) \<rparr>
   \<and> perform stringify setToken removeToken srv net (Search_cleanup False) w = w"
  using login_world [of stringify setToken srv email password w net]
    register_world [of srv userData w net]
  by (simp add: perform_def api_setToken_def api_removeToken_def logout_def Let_def
      search_effect_def search_cleanup_def)

end
